theory Spec2Isabelle
  imports Main
begin

section \<open>The sign-in kiosk of \<^verbatim>\<open>sign_in_app.py\<close>\<close>

text \<open>
  The program is one class, \<^verbatim>\<open>StudentSignInApp\<close>: it loads a roster of student
  identifiers from a CSV file, and its submit handler \<^verbatim>\<open>sign_in\<close> appends a row to
  the CSV log of the day. All tabular data goes through pandas, so the embedding starts
  with the fragment of pandas the program uses: typed cells, \<^verbatim>\<open>read_csv\<close> with its
  per-column type inference, \<^verbatim>\<open>to_csv\<close>, comparison of a column with a string
  and \<^verbatim>\<open>concat\<close>.
\<close>

subsection \<open>Python strings\<close>

text \<open>
  A Python \<^verbatim>\<open>str\<close> is modelled as a \<open>string\<close>; a \<open>char\<close> stands for a code
  point below 256. \<^verbatim>\<open>str.strip()\<close> removes the characters for which
  \<^verbatim>\<open>str.isspace()\<close> holds from both ends; below 256 these are the code points
  9 to 13, 28 to 32, 133 and 160.
\<close>

definition py_isspace :: "char \<Rightarrow> bool" where
  "py_isspace c = ((of_char c :: nat) \<in> {9, 10, 11, 12, 13, 28, 29, 30, 31, 32, 133, 160})"

definition strip :: "string \<Rightarrow> string" where
  "strip s = rev (dropWhile py_isspace (rev (dropWhile py_isspace s)))"

text \<open>Decimal printing of Python's \<^verbatim>\<open>int\<close>, as \<^verbatim>\<open>str\<close> prints it.\<close>

definition digit_char :: "nat \<Rightarrow> char" where
  "digit_char n = ''0123456789'' ! n"

function str_nat :: "nat \<Rightarrow> string" where
  "str_nat n = (if n < 10 then [digit_char n] else str_nat (n div 10) @ [digit_char (n mod 10)])"
  by pat_completeness auto
termination
  by (relation "measure id") auto

declare str_nat.simps [simp del]

definition str_int :: "int \<Rightarrow> string" where
  "str_int i = (if i < 0 then CHR ''-'' # str_nat (nat (- i)) else str_nat (nat i))"

subsection \<open>The pandas fragment\<close>

text \<open>
  A cell of a DataFrame is a Python \<^verbatim>\<open>int\<close>, a \<^verbatim>\<open>str\<close>, the missing value
  \<^verbatim>\<open>NaN\<close>, or another scalar (a float, a bool), which is kept by the text that
  \<^verbatim>\<open>str\<close> and \<^verbatim>\<open>to_csv\<close> print for it.
\<close>

datatype cell = IntC int | StrC string | OtherC string | NaN

text \<open>
  A CSV file is kept as its header and its records, each a list of text fields: the
  quoting of fields is below this model, blank lines are no records, and the labels of
  the header are the ones \<^verbatim>\<open>read_csv\<close> reports. A file without any line has the
  empty header. A DataFrame has column labels and rows of cells.
\<close>

record csv =
  header :: "string list"
  records :: "string list list"

record dataframe =
  columns :: "string list"
  rows :: "cell list list"

text \<open>
  The exceptions the program can meet. \<open>KeyError name\<close> is raised by \<^verbatim>\<open>df[name]\<close>;
  \<open>ColumnNotFound path cols\<close> is the \<^verbatim>\<open>KeyError\<close> that the roster loader raises
  itself, with the two values its message is formatted from; \<open>EmptyDataError\<close> and
  \<open>ParserError\<close> are raised by \<^verbatim>\<open>read_csv\<close>.
\<close>

datatype exn =
    FileNotFoundError string
  | KeyError string
  | ColumnNotFound string "string list"
  | EmptyDataError
  | ParserError

text \<open>
  The two major versions of pandas differ in one place that the program reaches:
  \<^verbatim>\<open>astype(str)\<close> of a missing value.
\<close>

datatype pandas_version = Pandas2 | Pandas3

text \<open>The strings \<^verbatim>\<open>read_csv\<close> takes for a missing value by default.\<close>

definition na_values :: "string list" where
  "na_values = ['''', ''#N/A'', ''#N/A N/A'', ''#NA'', ''-1.#IND'', ''-1.#QNAN'', ''-NaN'',
     ''-nan'', ''1.#IND'', ''1.#QNAN'', ''<NA>'', ''N/A'', ''NA'', ''NULL'', ''NaN'',
     ''None'', ''n/a'', ''nan'', ''null'']"

definition is_na :: "string \<Rightarrow> bool" where
  "is_na t = (t \<in> set na_values)"

text \<open>
  An integer literal as the parser of \<^verbatim>\<open>read_csv\<close> accepts it: blanks, an optional
  sign, at least one digit, blanks, and a value in the range of \<^verbatim>\<open>int64\<close>.
\<close>

definition c_isspace :: "char \<Rightarrow> bool" where
  "c_isspace c = ((of_char c :: nat) \<in> {9, 10, 11, 12, 13, 32})"

definition is_digit :: "char \<Rightarrow> bool" where
  "is_digit c = (48 \<le> (of_char c :: nat) \<and> (of_char c :: nat) \<le> 57)"

definition digits_value :: "string \<Rightarrow> int" where
  "digits_value ds = foldl (\<lambda>a c. 10 * a + (int (of_char c) - 48)) 0 ds"

definition int64_lit :: "string \<Rightarrow> int option" where
  "int64_lit t =
     (let p = dropWhile c_isspace t;
          neg = (p \<noteq> [] \<and> hd p = CHR ''-'');
          q = (if p \<noteq> [] \<and> (hd p = CHR ''-'' \<or> hd p = CHR ''+'') then tl p else p);
          ds = takeWhile is_digit q;
          v = (if neg then - digits_value ds else digits_value ds)
      in if ds = [] \<or> dropWhile c_isspace (dropWhile is_digit q) \<noteq> [] then None
         else if v < - (2 ^ 63) \<or> 2 ^ 63 \<le> v then None
         else Some v)"

text \<open>
  The fields that are certainly text for \<^verbatim>\<open>read_csv\<close>. A field may be read as a
  number only if it has the shape of a decimal literal (blanks, a sign, digits, a point,
  digits, an exponent, blanks) or spells an infinity, and as a boolean only if it spells
  \<^verbatim>\<open>true\<close> or \<^verbatim>\<open>false\<close>; \<open>float_shape\<close> and \<open>special_word\<close> accept
  at least these fields. A field that is no missing-value marker and that neither of the
  two accepts is \<open>plain_text\<close>.
\<close>

definition drop_sign :: "string \<Rightarrow> string" where
  "drop_sign p =
     (case p of [] \<Rightarrow> [] | c # q \<Rightarrow> if c = CHR ''-'' \<or> c = CHR ''+'' then q else p)"

definition float_shape :: "string \<Rightarrow> bool" where
  "float_shape t =
     (let q = drop_sign (dropWhile c_isspace t);
          r1 = dropWhile is_digit q;
          r2 = (case r1 of [] \<Rightarrow> r1
                | c # r \<Rightarrow> if c = CHR ''.'' then dropWhile is_digit r else r1);
          r3 = (case r2 of [] \<Rightarrow> r2
                | c # r \<Rightarrow> if c = CHR ''e'' \<or> c = CHR ''E''
                           then dropWhile is_digit (drop_sign r) else r2)
      in list_ex is_digit t \<and> dropWhile c_isspace r3 = [])"

definition to_lower :: "char \<Rightarrow> char" where
  "to_lower c =
     (case map_of (zip ''ABCDEFGHIJKLMNOPQRSTUVWXYZ'' ''abcdefghijklmnopqrstuvwxyz'') c of
        Some l \<Rightarrow> l
      | None \<Rightarrow> c)"

definition special_word :: "string \<Rightarrow> bool" where
  "special_word t =
     (map to_lower (filter (\<lambda>c. \<not> c_isspace c \<and> c \<noteq> CHR ''+'' \<and> c \<noteq> CHR ''-'') t)
        \<in> set [''inf'', ''infinity'', ''true'', ''false''])"

definition plain_text :: "string \<Rightarrow> bool" where
  "plain_text t = (\<not> is_na t \<and> \<not> float_shape t \<and> \<not> special_word t)"

text \<open>
  An integer literal that stands in a \<^verbatim>\<open>float64\<close> column is read as a float. Below
  \<open>10\<^sup>1\<^sup>5\<close> in magnitude the float is the integer itself and prints as the integer
  followed by \<^verbatim>\<open>.0\<close>; the literal \<^verbatim>\<open>-0\<close> is the negative zero.
\<close>

definition small_int :: "string \<Rightarrow> bool" where
  "small_int t = (case int64_lit t of None \<Rightarrow> False | Some v \<Rightarrow> \<bar>v\<bar> < 10 ^ 15)"

definition minus_signed :: "string \<Rightarrow> bool" where
  "minus_signed t = (case dropWhile c_isspace t of [] \<Rightarrow> False | c # _ \<Rightarrow> c = CHR ''-'')"

definition float_text :: "string \<Rightarrow> string" where
  "float_text t =
     (case int64_lit t of
        None \<Rightarrow> t
      | Some v \<Rightarrow> if v = 0 \<and> minus_signed t then ''-0.0'' else str_int v @ ''.0'')"

text \<open>
  \<^verbatim>\<open>read_csv\<close> gives a column one type for all its fields. The fragment modelled:
  \<^item> a column with a field that is plain text is read as \<^verbatim>\<open>object\<close>: a
    missing-value marker as \<^verbatim>\<open>NaN\<close>, any other field as the \<^verbatim>\<open>str\<close> it is;
  \<^item> a column whose every field is an integer literal is read as \<^verbatim>\<open>int64\<close>;
  \<^item> a column of missing-value markers and integer literals below \<open>10\<^sup>1\<^sup>5\<close> is read
    as \<^verbatim>\<open>float64\<close>.
  Every other column (decimal fractions, exponents, booleans, larger integers next to
  missing values) is \<open>Unmodelled\<close>: pandas gives it a numeric or boolean type, and the
  cells that \<open>read_cell\<close> gives for it are not the cells of pandas. A statement about
  the cells read from a file is made for the files that are \<open>in_fragment\<close>: a header,
  no record longer than the header, no column that is \<open>Unmodelled\<close>.
\<close>

datatype dtype = Int64 | Float64 | Object | Unmodelled

definition column_dtype :: "string list \<Rightarrow> dtype" where
  "column_dtype ts =
     (if ts = [] then Object
      else if list_ex plain_text ts then Object
      else if list_all (\<lambda>t. int64_lit t \<noteq> None) ts then Int64
      else if list_all (\<lambda>t. is_na t \<or> small_int t) ts then Float64
      else Unmodelled)"

definition read_cell :: "dtype \<Rightarrow> string \<Rightarrow> cell" where
  "read_cell d t =
     (case d of
        Int64 \<Rightarrow> (case int64_lit t of Some v \<Rightarrow> IntC v | None \<Rightarrow> NaN)
      | Float64 \<Rightarrow> if is_na t then NaN else OtherC (float_text t)
      | Object \<Rightarrow> if is_na t then NaN else StrC t
      | Unmodelled \<Rightarrow> if is_na t then NaN else OtherC t)"

text \<open>
  The records against the header. The first record may have more fields than the
  header: its leading fields, and those of every record, are then the index of the
  frame and belong to no column. A later record with more fields than that raises
  \<^verbatim>\<open>ParserError\<close>; a record with fewer fields is filled with missing values. A
  file without a header line raises \<^verbatim>\<open>EmptyDataError\<close>.
\<close>

definition width :: "csv \<Rightarrow> nat" where
  "width f =
     (case records f of
        [] \<Rightarrow> length (header f)
      | r # _ \<Rightarrow> max (length (header f)) (length r))"

definition field :: "csv \<Rightarrow> string list \<Rightarrow> nat \<Rightarrow> string" where
  "field f r j =
     (let k = (width f - length (header f)) + j in if k < length r then r ! k else [])"

definition column_texts :: "csv \<Rightarrow> nat \<Rightarrow> string list" where
  "column_texts f j = map (\<lambda>r. field f r j) (records f)"

definition read_record :: "csv \<Rightarrow> string list \<Rightarrow> cell list" where
  "read_record f r =
     map (\<lambda>j. read_cell (column_dtype (column_texts f j)) (field f r j)) [0..<length (header f)]"

definition read_csv :: "csv option \<Rightarrow> string \<Rightarrow> exn + dataframe" where
  "read_csv file path =
     (case file of
        None \<Rightarrow> Inl (FileNotFoundError path)
      | Some f \<Rightarrow>
          if header f = [] then Inl EmptyDataError
          else if list_ex (\<lambda>r. width f < length r) (records f) then Inl ParserError
          else Inr \<lparr>columns = header f, rows = map (read_record f) (records f)\<rparr>)"


text \<open>\<^verbatim>\<open>to_csv(index=False)\<close> prints every cell; a missing value is the empty field.\<close>

definition render :: "cell \<Rightarrow> string" where
  "render c = (case c of IntC i \<Rightarrow> str_int i | StrC s \<Rightarrow> s | OtherC s \<Rightarrow> s | NaN \<Rightarrow> [])"

definition to_csv :: "dataframe \<Rightarrow> csv" where
  "to_csv df = \<lparr>header = columns df, records = map (map render) (rows df)\<rparr>"

text \<open>
  \<^verbatim>\<open>astype(str)\<close> applies \<^verbatim>\<open>str\<close> to every cell. For a missing value pandas 2
  gives the \<^verbatim>\<open>str\<close> \<^verbatim>\<open>'nan'\<close>, and pandas 3 keeps the missing value, which is
  equal to no \<^verbatim>\<open>str\<close>: the result is then \<open>None\<close>.
\<close>

definition astype_str :: "pandas_version \<Rightarrow> cell \<Rightarrow> string option" where
  "astype_str v c =
     (case c of
        IntC i \<Rightarrow> Some (str_int i)
      | StrC s \<Rightarrow> Some s
      | OtherC s \<Rightarrow> Some s
      | NaN \<Rightarrow> (case v of Pandas2 \<Rightarrow> Some ''nan'' | Pandas3 \<Rightarrow> None))"

text \<open>
  \<^verbatim>\<open>df[name]\<close> raises \<^verbatim>\<open>KeyError\<close> for a label that is no column.
  \<^verbatim>\<open>column == s\<close> with a \<^verbatim>\<open>str\<close> \<open>s\<close> compares cell by cell, and only a
  \<^verbatim>\<open>str\<close> cell is equal to a \<^verbatim>\<open>str\<close>: an \<^verbatim>\<open>int\<close> cell \<open>123\<close> is not
  equal to \<^verbatim>\<open>'123'\<close>.
\<close>

fun col_index :: "string list \<Rightarrow> string \<Rightarrow> nat option" where
  "col_index [] name = None"
| "col_index (c # cs) name = (if c = name then Some 0 else map_option Suc (col_index cs name))"

definition cell_at :: "cell list \<Rightarrow> nat \<Rightarrow> cell" where
  "cell_at r j = (if j < length r then r ! j else NaN)"

definition eq_str :: "cell \<Rightarrow> string \<Rightarrow> bool" where
  "eq_str c s = (case c of StrC t \<Rightarrow> t = s | _ \<Rightarrow> False)"

text \<open>
  \<^verbatim>\<open>pd.concat([df, new_row], ignore_index=True)\<close>: the columns of \<open>df\<close>, then the
  columns of the new row that \<open>df\<close> lacks; the rows of \<open>df\<close>, then the new row; a cell
  that a frame has no column for is \<^verbatim>\<open>NaN\<close>. A column of \<open>df\<close> that holds
  integers only and that the new row has no value for becomes \<^verbatim>\<open>float64\<close>: its
  integers print with \<^verbatim>\<open>.0\<close> (as they do below \<open>10\<^sup>1\<^sup>6\<close>).
\<close>

definition is_int_cell :: "cell \<Rightarrow> bool" where
  "is_int_cell c = (case c of IntC _ \<Rightarrow> True | _ \<Rightarrow> False)"

definition as_float :: "cell \<Rightarrow> cell" where
  "as_float c = (case c of IntC i \<Rightarrow> OtherC (str_int i @ ''.0'') | _ \<Rightarrow> c)"

definition concat_row :: "dataframe \<Rightarrow> (string \<times> cell) list \<Rightarrow> dataframe" where
  "concat_row df new_row =
     (let extra = filter (\<lambda>c. c \<notin> set (columns df)) (map fst new_row);
          n = length (columns df);
          old = map (\<lambda>r. map (cell_at r) [0..<n]) (rows df);
          upcast = (\<lambda>j. columns df ! j \<notin> set (map fst new_row) \<and> old \<noteq> []
                        \<and> list_all (\<lambda>r. is_int_cell (r ! j)) old)
      in \<lparr>columns = columns df @ extra,
          rows = map (\<lambda>r. map (\<lambda>j. if upcast j then as_float (r ! j) else r ! j) [0..<n]
                           @ map (\<lambda>_. NaN) extra) old
                 @ [map (\<lambda>c. case map_of new_row c of Some v \<Rightarrow> v | None \<Rightarrow> NaN)
                        (columns df @ extra)]\<rparr>)"

subsection \<open>The application state\<close>

text \<open>
  \<^verbatim>\<open>datetime.now()\<close> is an input of the program: the state carries the readings of
  the clock, one for each call, and the number of calls made so far.
\<close>

record datetime =
  year :: nat
  month :: nat
  day :: nat
  hour :: nat
  minute :: nat
  second :: nat

definition pad2 :: "nat \<Rightarrow> string" where
  "pad2 n = (if n < 10 then CHR ''0'' # str_nat n else str_nat n)"

definition strftime_date :: "datetime \<Rightarrow> string" where
  \<comment> \<open>\<^verbatim>\<open>strftime("%Y-%m-%d")\<close>\<close>
  "strftime_date t = str_nat (year t) @ ''-'' @ pad2 (month t) @ ''-'' @ pad2 (day t)"

definition strftime_time :: "datetime \<Rightarrow> string" where
  \<comment> \<open>\<^verbatim>\<open>strftime("%H:%M:%S")\<close>\<close>
  "strftime_time t = pad2 (hour t) @ '':'' @ pad2 (minute t) @ '':'' @ pad2 (second t)"

datatype widget = IdEntry | SigninButton | Window

datatype dialog = ShowError string string | ShowErrorStr string exn
  \<comment> \<open>\<^verbatim>\<open>messagebox.showerror(title, text)\<close>; \<open>ShowErrorStr title e\<close> shows \<^verbatim>\<open>str(e)\<close>\<close>

text \<open>
  The fields of \<^verbatim>\<open>StudentSignInApp\<close> that the handler reads or writes, with the
  file system (a map from paths to CSV files) and the clock. \<open>id_entry\<close> is the text
  of the entry widget, \<open>status_label\<close> the text and the colour of the status label,
  \<open>focus\<close> the widget that holds the keyboard focus.
\<close>

record app =
  fs :: "string \<Rightarrow> csv option"
  clock :: "nat \<Rightarrow> datetime"
  tick :: nat
  valid_users :: "string set"
  id_entry :: string
  status_label :: "string \<times> string"
  focus :: widget

definition now :: "app \<Rightarrow> datetime \<times> app" where
  "now st = (clock st (tick st), st\<lparr>tick := Suc (tick st)\<rparr>)"

definition directory :: string where
  "directory = ''daily_logs''"

definition path_join :: "string \<Rightarrow> string \<Rightarrow> string" where
  \<comment> \<open>\<^verbatim>\<open>os.path.join\<close> of a directory name and a file name\<close>
  "path_join d name = d @ ''/'' @ name"

definition log_path :: "string \<Rightarrow> string" where
  "log_path date = path_join directory (date @ ''.csv'')"

definition log_columns :: "string list" where
  "log_columns = [''Student ID'', ''Status'', ''Date'', ''Time'']"

subsection \<open>The roster loader\<close>

text \<open>
  \<^verbatim>\<open>load_valid_users_from_csv\<close>. The body of its \<^verbatim>\<open>try\<close> is \<open>roster_ids\<close>.
  Stripping the labels can make two of them equal; \<^verbatim>\<open>df['Student ID']\<close> is then a
  frame, and \<^verbatim>\<open>set\<close> of a frame is the set of its column labels. The roster is
  kept as the set of its \<^verbatim>\<open>str\<close> members: a missing value that pandas 3 leaves in
  the set is equal to no text that \<^verbatim>\<open>sign_in\<close> looks up.
\<close>

definition roster_ids :: "pandas_version \<Rightarrow> csv option \<Rightarrow> string \<Rightarrow> exn + string set" where
  "roster_ids v file file_path =
     (case read_csv file file_path of
        Inl e \<Rightarrow> Inl e
      | Inr df \<Rightarrow>
          (let cols = map strip (columns df)
           in case col_index cols ''Student ID'' of
                None \<Rightarrow> Inl (ColumnNotFound file_path cols)
              | Some i \<Rightarrow>
                  if length (filter (\<lambda>c. c = ''Student ID'') cols) = 1
                  then Inr (set (List.map_filter (\<lambda>r. astype_str v (cell_at r i)) (rows df)))
                  else Inr {''Student ID''}))"

definition load_valid_users_from_csv ::
  "pandas_version \<Rightarrow> (string \<Rightarrow> csv option) \<Rightarrow> string \<Rightarrow> exn + (string set \<times> dialog list)" where
  "load_valid_users_from_csv v files file_path =
     (case roster_ids v (files file_path) file_path of
        Inr ids \<Rightarrow> Inr (ids, [])
      | Inl (FileNotFoundError p) \<Rightarrow>
          Inr ({}, [ShowError ''Error'' (file_path @ '' file not found!'')])
      | Inl (KeyError k) \<Rightarrow> Inr ({}, [ShowErrorStr ''Error'' (KeyError k)])
      | Inl (ColumnNotFound p cols) \<Rightarrow> Inr ({}, [ShowErrorStr ''Error'' (ColumnNotFound p cols)])
      | Inl e \<Rightarrow> Inl e)"

text \<open>
  \<^verbatim>\<open>__init__\<close>, without the background image and the layout of the widgets: the
  roster is loaded once, the entry is empty, the status label is empty and black.
\<close>

definition roster_path :: string where
  "roster_path = ''Robotics Club Member Roster CSV.csv''"

definition init ::
  "pandas_version \<Rightarrow> (string \<Rightarrow> csv option) \<Rightarrow> (nat \<Rightarrow> datetime)
     \<Rightarrow> exn + (app \<times> dialog list)" where
  "init v files clk =
     (case load_valid_users_from_csv v files roster_path of
        Inl e \<Rightarrow> Inl e
      | Inr (ids, shown) \<Rightarrow>
          Inr (\<lparr>fs = files, clock = clk, tick = 0, valid_users = ids, id_entry = [],
                status_label = ([], ''black''), focus = Window\<rparr>, shown))"

subsection \<open>The daily log\<close>

definition daily_log_generation :: "app \<Rightarrow> (exn + dataframe) \<times> app" where
  "daily_log_generation st =
     (let (t, st1) = now st;
          file_path = path_join directory (strftime_date t @ ''.csv'');
          st2 = (if fs st1 file_path = None
                 then st1\<lparr>fs := (fs st1)(file_path \<mapsto> to_csv \<lparr>columns = log_columns, rows = []\<rparr>)\<rparr>
                 else st1)
      in (read_csv (fs st2 file_path) file_path, st2))"

definition student_already_signed_in :: "dataframe \<Rightarrow> string \<Rightarrow> exn + bool" where
  "student_already_signed_in df student_id =
     (case col_index (columns df) ''Student ID'' of
        None \<Rightarrow> Inl (KeyError ''Student ID'')
      | Some i \<Rightarrow>
          (case col_index (columns df) ''Status'' of
             None \<Rightarrow> Inl (KeyError ''Status'')
           | Some j \<Rightarrow>
               (let signed_in = filter (\<lambda>r. eq_str (cell_at r i) student_id
                                             \<and> eq_str (cell_at r j) ''Signed In'') (rows df)
                in Inr (signed_in \<noteq> []))))"

definition log_student_sign_in :: "dataframe \<Rightarrow> string \<Rightarrow> string \<Rightarrow> string \<Rightarrow> app \<Rightarrow> app" where
  "log_student_sign_in df file_path student_id status st =
     (let (t1, st1) = now st;
          current_time = strftime_time t1;
          (t2, st2) = now st1;
          current_date = strftime_date t2;
          new_row = [(''Student ID'', StrC student_id), (''Status'', StrC status),
                     (''Date'', StrC current_date), (''Time'', StrC current_time)];
          df' = concat_row df new_row
      in st2\<lparr>fs := (fs st2)(file_path \<mapsto> to_csv df')\<rparr>)"

subsection \<open>The submit handler\<close>

text \<open>
  \<^verbatim>\<open>sign_in\<close>, bound to the button and to the Return key. An exception leaves the
  handler where it is raised: the result is the exception, if any, and the state reached.
\<close>

definition sign_in :: "app \<Rightarrow> exn option \<times> app" where
  "sign_in st =
     (let login = strip (id_entry st)
      in if login = [] then
           (None, st\<lparr>status_label := (''Please enter a Student ID'', ''red'')\<rparr>)
         else if login \<notin> valid_users st then
           (None, st\<lparr>status_label := (''Please enter a valid STUDENT ID'', ''red''),
                     id_entry := []\<rparr>)
         else
           (case daily_log_generation st of
              (Inl e, st1) \<Rightarrow> (Some e, st1)
            | (Inr daily_log_df, st1) \<Rightarrow>
                (let (t, st2) = now st1;
                     daily_log_file = path_join directory (strftime_date t @ ''.csv'')
                 in case student_already_signed_in daily_log_df login of
                      Inl e \<Rightarrow> (Some e, st2)
                    | Inr True \<Rightarrow>
                        (None, (log_student_sign_in daily_log_df daily_log_file login ''Signed Out'' st2)
                           \<lparr>status_label :=
                              (''Thank you. You have been successfully logged out.'', ''green''),
                            id_entry := [], focus := IdEntry\<rparr>)
                    | Inr False \<Rightarrow>
                        (None, (log_student_sign_in daily_log_df daily_log_file login ''Signed In'' st2)
                           \<lparr>status_label := (''Thank you. You have been signed in.'', ''green''),
                            id_entry := [], focus := IdEntry\<rparr>))))"

text \<open>The user types \<open>text\<close> into the entry and submits it.\<close>

definition submit :: "string \<Rightarrow> app \<Rightarrow> app" where
  "submit text st = snd (sign_in (st\<lparr>id_entry := text\<rparr>))"

text \<open>A session at the kiosk: one submission after another.\<close>

fun run :: "string list \<Rightarrow> app \<Rightarrow> app" where
  "run [] st = st"
| "run (text # texts) st = run texts (submit text st)"

subsection \<open>Sample inputs\<close>

text \<open>
  A clock that stays on 5 March 2024; rosters with the identifier \<open>123\<close>, with the
  identifier \<open>A12\<close>, with the identifiers \<open>007\<close> and \<open>A12\<close>, with \<open>123\<close> and a row
  that has no identifier, without a column of identifiers, with a record too long; the
  file without a line; the applications started on a roster; some logs.
\<close>

definition sample_clock :: "nat \<Rightarrow> datetime" where
  "sample_clock n = \<lparr>year = 2024, month = 3, day = 5, hour = 9, minute = 0, second = n mod 60\<rparr>"

definition numeric_roster :: csv where
  "numeric_roster = \<lparr>header = [''Name'', '' Student ID ''], records = [[''Ann'', ''123'']]\<rparr>"

definition alnum_roster :: csv where
  "alnum_roster = \<lparr>header = [''Name'', '' Student ID ''], records = [[''Bob'', ''A12'']]\<rparr>"

definition nameless_roster :: csv where
  "nameless_roster = \<lparr>header = [''Name'', ''Email''], records = [[''Ann'', ''ann@example.org'']]\<rparr>"


definition blank_id_roster :: csv where
  "blank_id_roster = \<lparr>header = [''Name'', ''Student ID''],
                       records = [[''Ann'', ''123''], [''Bob'', []]]\<rparr>"

definition ragged_roster :: csv where
  "ragged_roster = \<lparr>header = [''Name'', ''Email''],
                     records = [[''Ann'', ''ann@example.org''],
                                [''Bob'', ''bob@example.org'', ''B7'']]\<rparr>"

definition empty_file :: csv where
  "empty_file = \<lparr>header = [], records = []\<rparr>"

definition started :: "csv \<Rightarrow> string set \<Rightarrow> app" where
  "started roster ids =
     \<lparr>fs = [roster_path \<mapsto> roster], clock = sample_clock, tick = 0, valid_users = ids,
      id_entry = [], status_label = ([], ''black''), focus = Window\<rparr>"

definition sample_log :: dataframe where
  "sample_log =
     \<lparr>columns = log_columns,
      rows = [[StrC ''A12'', StrC ''Signed In'', StrC ''2024-03-05'', StrC ''09:00:02''],
              [StrC ''A12'', StrC ''Signed Out'', StrC ''2024-03-05'', StrC ''09:00:06''],
              [IntC 123, StrC ''Signed In'', StrC ''2024-03-05'', StrC ''09:00:10'']]\<rparr>"

definition numeric_log1 :: csv where
  "numeric_log1 =
     \<lparr>header = log_columns,
      records = [[''123'', ''Signed In'', ''2024-03-05'', ''09:00:02'']]\<rparr>"

definition numeric_log2 :: csv where
  "numeric_log2 =
     \<lparr>header = log_columns,
      records = [[''123'', ''Signed In'', ''2024-03-05'', ''09:00:02''],
                 [''123'', ''Signed In'', ''2024-03-05'', ''09:00:06'']]\<rparr>"

definition alnum_log1 :: csv where
  "alnum_log1 =
     \<lparr>header = log_columns,
      records = [[''A12'', ''Signed In'', ''2024-03-05'', ''09:00:02'']]\<rparr>"

definition alnum_log2 :: csv where
  "alnum_log2 =
     \<lparr>header = log_columns,
      records = [[''A12'', ''Signed In'', ''2024-03-05'', ''09:00:02''],
                 [''A12'', ''Signed Out'', ''2024-03-05'', ''09:00:06'']]\<rparr>"

definition alnum_log3 :: csv where
  "alnum_log3 =
     \<lparr>header = log_columns,
      records = [[''A12'', ''Signed In'', ''2024-03-05'', ''09:00:02''],
                 [''A12'', ''Signed Out'', ''2024-03-05'', ''09:00:06''],
                 [''A12'', ''Signed Out'', ''2024-03-05'', ''09:00:10'']]\<rparr>"


text \<open>
  The file that \<^verbatim>\<open>daily_log_generation\<close> reads on the day whose date prints as \<open>D\<close>:
  the log of the day, or the file with the header alone that it has just written.
\<close>

definition todays_file :: "app \<Rightarrow> string \<Rightarrow> csv" where
  "todays_file st D =
     (case fs st (log_path D) of
        None \<Rightarrow> \<lparr>header = log_columns, records = []\<rparr>
      | Some f \<Rightarrow> f)"

section \<open>Properties\<close>

subsection \<open>Auxiliary facts\<close>

lemma dropWhile_all_iff: "(\<forall>c\<in>set (dropWhile P s). P c) \<longleftrightarrow> (\<forall>c\<in>set s. P c)"
  by (induction s) auto

lemma strip_empty_iff: "strip s = [] \<longleftrightarrow> (\<forall>c\<in>set s. py_isspace c)"
  by (simp add: strip_def dropWhile_all_iff)

lemma now_simps [simp]:
  "fst (now st) = clock st (tick st)"
  "snd (now st) = st\<lparr>tick := Suc (tick st)\<rparr>"
  by (simp_all add: now_def)

lemma col_index_None: "col_index cs name = None \<longleftrightarrow> name \<notin> set cs"
  by (induction cs) auto

lemma eq_str_iff: "eq_str c s \<longleftrightarrow> c = StrC s"
  by (cases c) (auto simp: eq_str_def)

lemma pad_rows_id:
  assumes "\<forall>r\<in>set rs. length r = n"
  shows "map (\<lambda>r. map (cell_at r) [0..<n]) rs = rs"
proof (rule map_idI)
  fix r assume "r \<in> set rs"
  then have "length r = n" using assms by simp
  then show "map (cell_at r) [0..<n] = r"
    by (intro nth_equalityI) (auto simp: cell_at_def)
qed

text \<open>On a frame with the columns of the log, \<^verbatim>\<open>concat\<close> adds the row at the end.\<close>

lemma concat_row_schema:
  assumes "columns df = log_columns" and "\<forall>r\<in>set (rows df). length r = length log_columns"
  shows "concat_row df [(''Student ID'', a), (''Status'', b), (''Date'', c), (''Time'', d)]
         = \<lparr>columns = log_columns, rows = rows df @ [[a, b, c, d]]\<rparr>"
proof -
  let ?new = "[(''Student ID'', a), (''Status'', b), (''Date'', c), (''Time'', d)]"
  let ?n = "length (columns df)"
  have old: "map (\<lambda>r. map (cell_at r) [0..<?n]) (rows df) = rows df"
    using pad_rows_id [of "rows df" ?n] assms by simp
  have extra: "filter (\<lambda>c. c \<notin> set (columns df)) (map fst ?new) = []"
    by (simp add: assms(1) log_columns_def)
  have last: "map (\<lambda>c. case map_of ?new c of Some v \<Rightarrow> v | None \<Rightarrow> NaN) (columns df @ []) = [a, b, c, d]"
    by (simp add: assms(1) log_columns_def)
  have named: "columns df ! j \<in> set (map fst ?new)" if "j < ?n" for j
  proof -
    have "columns df ! j \<in> set (columns df)" using that by (rule nth_mem)
    then show ?thesis by (simp add: assms(1) log_columns_def)
  qed
  have keep: "map (\<lambda>j. if columns df ! j \<notin> set (map fst ?new) \<and> P j then as_float (r ! j) else r ! j)
                [0..<?n] = r" if "r \<in> set (rows df)" for r and P :: "nat \<Rightarrow> bool"
  proof -
    have "length r = ?n" using that assms by simp
    then show ?thesis using named by (intro nth_equalityI) auto
  qed
  have "map (\<lambda>r. map (\<lambda>j. if columns df ! j \<notin> set (map fst ?new) \<and> P j then as_float (r ! j) else r ! j)
                [0..<?n] @ map (\<lambda>_. NaN) []) (rows df) = rows df" for P :: "nat \<Rightarrow> bool"
    using keep by (intro map_idI) simp
  then show ?thesis
    unfolding concat_row_def Let_def old extra last using assms(1) by simp
qed

text \<open>What the handler leaves alone while the clock stays on the day that prints as \<open>D\<close>.\<close>

lemma sign_in_frame:
  assumes "\<forall>n. strftime_date (clock st n) = D" and "p \<noteq> log_path D"
  shows "fs (snd (sign_in st)) p = fs st p \<and> clock (snd (sign_in st)) = clock st"
  using assms
  by (auto simp: sign_in_def daily_log_generation_def log_student_sign_in_def now_def Let_def
      log_path_def split: sum.splits bool.splits prod.splits if_splits)

lemma run_frame:
  assumes "\<forall>n. strftime_date (clock st n) = D" and "p \<noteq> log_path D"
  shows "fs (run xs st) p = fs st p"
  using assms
proof (induction xs arbitrary: st)
  case Nil
  then show ?case by simp
next
  case (Cons x xs)
  let ?st = "st\<lparr>id_entry := x\<rparr>"
  have c: "\<forall>n. strftime_date (clock ?st n) = D" using Cons.prems(1) by simp
  have step: "fs (submit x st) p = fs st p" "clock (submit x st) = clock st"
    using sign_in_frame [OF c Cons.prems(2)] by (simp_all add: submit_def)
  have "fs (run xs (submit x st)) p = fs (submit x st) p"
    using Cons.IH [of "submit x st"] Cons.prems step(2) by simp
  then show ?case using step(1) by simp
qed

text \<open>With an empty roster the handler rejects every submission.\<close>

lemma sign_in_no_users:
  assumes "valid_users st = {}"
  shows "fst (sign_in st) = None \<and> fs (snd (sign_in st)) = fs st
     \<and> valid_users (snd (sign_in st)) = {} \<and> snd (status_label (snd (sign_in st))) = ''red''"
  using assms by (simp add: sign_in_def Let_def)

lemma run_no_users:
  assumes "valid_users st = {}"
  shows "fs (run xs st) = fs st"
  using assms
proof (induction xs arbitrary: st)
  case Nil
  then show ?case by simp
next
  case (Cons x xs)
  have "valid_users (st\<lparr>id_entry := x\<rparr>) = {}" using Cons.prems by simp
  from sign_in_no_users [OF this]
  have "fs (submit x st) = fs st" "valid_users (submit x st) = {}"
    by (simp_all add: submit_def)
  then show ?case using Cons.IH [of "submit x st"] by simp
qed

text \<open>An accepted submission reads the clock; a rejected one does not.\<close>

lemma log_student_sign_in_tick:
  "tick (log_student_sign_in df p sid status st) = Suc (Suc (tick st))"
  by (simp add: log_student_sign_in_def now_def)

lemma daily_log_generation_tick:
  "tick (snd (daily_log_generation st)) = Suc (tick st)"
  by (simp add: daily_log_generation_def now_def Let_def)

lemma sign_in_valid_tick:
  assumes "strip (id_entry st) \<noteq> []" and "strip (id_entry st) \<in> valid_users st"
  shows "tick st < tick (snd (sign_in st))"
proof -
  obtain r st1 where d: "daily_log_generation st = (r, st1)" by (cases "daily_log_generation st")
  then have t: "tick st1 = Suc (tick st)" using daily_log_generation_tick [of st] by simp
  show ?thesis using assms d t
    by (auto simp: sign_in_def now_def Let_def log_student_sign_in_tick split: sum.splits bool.splits)
qed

text \<open>
  The accepted submission, on a day whose date prints as \<open>D\<close>: the frame read from the log
  of the day, the answer \<open>b\<close> of the check, and the state the handler leaves.
\<close>

lemma sign_in_valid:
  assumes login: "strip (id_entry st) = login" "login \<noteq> []" "login \<in> valid_users st"
    and day: "\<forall>n. strftime_date (clock st n) = D"
    and df: "read_csv (Some (todays_file st D)) (log_path D) = Inr df"
    and b: "student_already_signed_in df login = Inr b"
  shows "sign_in st =
     (None, st\<lparr>tick := tick st + 4,
               fs := (fs st)(log_path D \<mapsto> to_csv (concat_row df
                  [(''Student ID'', StrC login),
                   (''Status'', StrC (if b then ''Signed Out'' else ''Signed In'')),
                   (''Date'', StrC D),
                   (''Time'', StrC (strftime_time (clock st (tick st + 2))))])),
               status_label := (if b then ''Thank you. You have been successfully logged out.''
                                else ''Thank you. You have been signed in.'', ''green''),
               id_entry := [], focus := IdEntry\<rparr>)"
proof -
  have d: "daily_log_generation st = (Inr df, st\<lparr>tick := Suc (tick st),
      fs := (fs st)(log_path D \<mapsto> todays_file st D)\<rparr>)"
    using day df
    by (cases "fs st (log_path D)")
       (auto simp: daily_log_generation_def now_def Let_def log_path_def todays_file_def to_csv_def
          fun_upd_idem)
  show ?thesis
    using login day b
    by (cases b) (simp_all add: sign_in_def d now_def Let_def log_student_sign_in_def log_path_def)
qed


lemma submit_valid:
  assumes login: "strip x = login" "login \<noteq> []" "login \<in> valid_users st"
    and day: "\<forall>n. strftime_date (clock st n) = D"
    and df: "read_csv (Some (todays_file st D)) (log_path D) = Inr df"
    and b: "student_already_signed_in df login = Inr b"
  shows "submit x st =
     st\<lparr>tick := tick st + 4,
        fs := (fs st)(log_path D \<mapsto> to_csv (concat_row df
                  [(''Student ID'', StrC login),
                   (''Status'', StrC (if b then ''Signed Out'' else ''Signed In'')),
                   (''Date'', StrC D),
                   (''Time'', StrC (strftime_time (clock st (tick st + 2))))])),
        status_label := (if b then ''Thank you. You have been successfully logged out.''
                         else ''Thank you. You have been signed in.'', ''green''),
        id_entry := [], focus := IdEntry\<rparr>"
proof -
  let ?st = "st\<lparr>id_entry := x\<rparr>"
  have t: "todays_file ?st D = todays_file st D" by (simp add: todays_file_def)
  have "sign_in ?st = (None, ?st\<lparr>tick := tick ?st + 4,
               fs := (fs ?st)(log_path D \<mapsto> to_csv (concat_row df
                  [(''Student ID'', StrC login),
                   (''Status'', StrC (if b then ''Signed Out'' else ''Signed In'')),
                   (''Date'', StrC D),
                   (''Time'', StrC (strftime_time (clock ?st (tick ?st + 2))))])),
               status_label := (if b then ''Thank you. You have been successfully logged out.''
                                else ''Thank you. You have been signed in.'', ''green''),
               id_entry := [], focus := IdEntry\<rparr>)"
    by (rule sign_in_valid) (use assms t in simp_all)
  then show ?thesis by (simp add: submit_def)
qed


subsection \<open>Facts about the sample inputs\<close>

lemma sample_day: "strftime_date (sample_clock n) = ''2024-03-05''"
  by (simp add: strftime_date_def sample_clock_def pad2_def str_nat.simps digit_char_def)

lemma sample_time:
  "n = 0 \<Longrightarrow> strftime_time (sample_clock n) = ''09:00:00''"
  "n = 2 \<Longrightarrow> strftime_time (sample_clock n) = ''09:00:02''"
  "n = 6 \<Longrightarrow> strftime_time (sample_clock n) = ''09:00:06''"
  "n = 10 \<Longrightarrow> strftime_time (sample_clock n) = ''09:00:10''"
  by (simp_all add: strftime_time_def sample_clock_def pad2_def str_nat.simps digit_char_def)

lemma started_simps:
  "tick (started r ids) = 0" "clock (started r ids) = sample_clock"
  "valid_users (started r ids) = ids" "fs (started r ids) = [roster_path \<mapsto> r]"
  "id_entry (started r ids) = []" "focus (started r ids) = Window"
  by (simp_all add: started_def)

lemma log_path_not_roster: "log_path D \<noteq> roster_path"
  by (simp add: log_path_def roster_path_def path_join_def directory_def)

lemma strip_samples:
  "strip ''123'' = ''123''" "strip ''A12'' = ''A12''" "strip ''007'' = ''007''"
  "strip '' 999 '' = ''999''" "strip ''   '' = []"
  "strip ''Name'' = ''Name''" "strip ''Email'' = ''Email''"
  "strip ''Student ID'' = ''Student ID''" "strip '' Student ID '' = ''Student ID''"
  by (simp_all add: strip_def py_isspace_def)

lemma int64_lit_samples:
  "int64_lit ''123'' = Some 123" "int64_lit ''007'' = Some 7" "int64_lit [] = None"
  by (simp_all add: int64_lit_def c_isspace_def is_digit_def digits_value_def)

lemma plain_text_samples:
  "plain_text ''A12''" "plain_text ''Ann''" "plain_text ''Bob''"
  "plain_text ''Signed In''" "plain_text ''Signed Out''"
  "plain_text ''2024-03-05''" "plain_text ''09:00:02''" "plain_text ''09:00:06''"
  "plain_text ''ann@example.org''" "plain_text ''bob@example.org''"
  "\<not> plain_text ''123''" "\<not> plain_text ''007''" "\<not> plain_text []"
  by (simp_all add: plain_text_def is_na_def na_values_def float_shape_def special_word_def
      to_lower_def drop_sign_def c_isspace_def is_digit_def)

lemma is_na_samples:
  "\<not> is_na ''123''" "\<not> is_na ''007''" "\<not> is_na ''A12''" "\<not> is_na ''Ann''" "\<not> is_na ''Bob''"
  "\<not> is_na ''Signed In''" "\<not> is_na ''Signed Out''"
  "\<not> is_na ''2024-03-05''" "\<not> is_na ''09:00:02''" "\<not> is_na ''09:00:06''" "is_na []"
  by (simp_all add: is_na_def na_values_def)

lemma small_int_123: "small_int ''123''" "float_text ''123'' = ''123.0''"
  by (simp_all add: small_int_def float_text_def int64_lit_samples str_int_def str_nat.simps
      digit_char_def)

lemma render_samples:
  "render (IntC 123) = ''123''" "render (IntC 7) = ''7''"
  by (simp_all add: render_def str_int_def str_nat.simps digit_char_def)

text \<open>The types that \<open>column_dtype\<close> gives the columns of the samples.\<close>

lemma column_dtype_plain: "list_ex plain_text ts \<Longrightarrow> column_dtype ts = Object"
  by (auto simp: column_dtype_def)

lemma column_dtype_samples:
  "column_dtype [''123''] = Int64" "column_dtype [''007''] = Int64"
  "column_dtype [''123'', []] = Float64"
  by (simp_all add: column_dtype_def plain_text_samples int64_lit_samples is_na_samples
      small_int_123)




subsection \<open>Two submissions of the same identifier\<close>

lemma length_log_columns: "length log_columns = 4"
  by (simp add: log_columns_def)

lemma read_empty_log:
  "read_csv (Some \<lparr>header = log_columns, records = []\<rparr>) p = Inr \<lparr>columns = log_columns, rows = []\<rparr>"
  by (simp add: read_csv_def log_columns_def)

lemma no_row_not_signed_in:
  "student_already_signed_in \<lparr>columns = log_columns, rows = []\<rparr> s = Inr False"
  by (simp add: student_already_signed_in_def log_columns_def)

text \<open>
  The first submission of a day, for either sample roster: the log is created and holds
  one \<^verbatim>\<open>Signed In\<close> record.
\<close>

lemma first_submission:
  assumes "strip x = x" and "x \<noteq> []" and "x \<in> ids"
  shows "submit x (started r ids) =
     (started r ids)\<lparr>tick := 4,
        fs := [roster_path \<mapsto> r, log_path ''2024-03-05'' \<mapsto>
                 \<lparr>header = log_columns,
                  records = [[x, ''Signed In'', ''2024-03-05'', ''09:00:02'']]\<rparr>],
        status_label := (''Thank you. You have been signed in.'', ''green''),
        id_entry := [], focus := IdEntry\<rparr>"
proof -
  let ?st = "started r ids"
  have "todays_file ?st ''2024-03-05'' = \<lparr>header = log_columns, records = []\<rparr>"
    by (simp add: todays_file_def started_simps log_path_not_roster)
  then have df: "read_csv (Some (todays_file ?st ''2024-03-05'')) (log_path ''2024-03-05'')
      = Inr \<lparr>columns = log_columns, rows = []\<rparr>"
    by (simp add: read_empty_log)
  have "submit x ?st = ?st\<lparr>tick := tick ?st + 4,
        fs := (fs ?st)(log_path ''2024-03-05'' \<mapsto> to_csv (concat_row \<lparr>columns = log_columns, rows = []\<rparr>
                  [(''Student ID'', StrC x),
                   (''Status'', StrC (if False then ''Signed Out'' else ''Signed In'')),
                   (''Date'', StrC ''2024-03-05''),
                   (''Time'', StrC (strftime_time (clock ?st (tick ?st + 2))))])),
        status_label := (if False then ''Thank you. You have been successfully logged out.''
                         else ''Thank you. You have been signed in.'', ''green''),
        id_entry := [], focus := IdEntry\<rparr>"
    by (rule submit_valid [OF assms(1,2) _ _ df no_row_not_signed_in])
       (simp_all add: started_simps sample_day assms(3))
  then show ?thesis
    by (simp add: concat_row_schema to_csv_def started_simps sample_time render_def)
qed

text \<open>
  Read back, the log of the identifier \<open>123\<close> has an \<^verbatim>\<open>int64\<close> column of
  identifiers, and no cell of it is equal to the \<^verbatim>\<open>str\<close> \<^verbatim>\<open>'123'\<close>.
\<close>

lemma read_numeric_log1:
  "read_csv (Some numeric_log1) p =
     Inr \<lparr>columns = log_columns,
          rows = [[IntC 123, StrC ''Signed In'', StrC ''2024-03-05'', StrC ''09:00:02'']]\<rparr>"
  by (simp add: read_csv_def numeric_log1_def log_columns_def width_def read_record_def column_texts_def
      field_def read_cell_def column_dtype_plain column_dtype_samples plain_text_samples
      int64_lit_samples is_na_samples upt_rec)

lemma numeric_not_signed_in:
  "student_already_signed_in
     \<lparr>columns = log_columns,
      rows = [[IntC 123, StrC ''Signed In'', StrC ''2024-03-05'', StrC ''09:00:02'']]\<rparr> ''123''
   = Inr False"
  by (simp add: student_already_signed_in_def log_columns_def eq_str_def cell_at_def)

lemma second_numeric:
  "submit ''123'' (submit ''123'' (started numeric_roster {''123''})) =
     (started numeric_roster {''123''})\<lparr>tick := 8,
        fs := [roster_path \<mapsto> numeric_roster, log_path ''2024-03-05'' \<mapsto> numeric_log2],
        status_label := (''Thank you. You have been signed in.'', ''green''),
        id_entry := [], focus := IdEntry\<rparr>"
proof -
  let ?st = "(started numeric_roster {''123''})\<lparr>tick := 4,
        fs := [roster_path \<mapsto> numeric_roster, log_path ''2024-03-05'' \<mapsto> numeric_log1],
        status_label := (''Thank you. You have been signed in.'', ''green''),
        id_entry := [], focus := IdEntry\<rparr>"
  let ?df = "\<lparr>columns = log_columns,
      rows = [[IntC 123, StrC ''Signed In'', StrC ''2024-03-05'', StrC ''09:00:02'']]\<rparr>"
  have first: "submit ''123'' (started numeric_roster {''123''}) = ?st"
    using first_submission [of "''123''" "{''123''}" numeric_roster]
    by (simp add: strip_samples numeric_log1_def)
  have "todays_file ?st ''2024-03-05'' = numeric_log1"
    by (simp add: todays_file_def)
  then have df: "read_csv (Some (todays_file ?st ''2024-03-05'')) (log_path ''2024-03-05'') = Inr ?df"
    by (simp add: read_numeric_log1)
  have "submit ''123'' ?st = ?st\<lparr>tick := tick ?st + 4,
        fs := (fs ?st)(log_path ''2024-03-05'' \<mapsto> to_csv (concat_row ?df
                  [(''Student ID'', StrC ''123''),
                   (''Status'', StrC (if False then ''Signed Out'' else ''Signed In'')),
                   (''Date'', StrC ''2024-03-05''),
                   (''Time'', StrC (strftime_time (clock ?st (tick ?st + 2))))])),
        status_label := (if False then ''Thank you. You have been successfully logged out.''
                         else ''Thank you. You have been signed in.'', ''green''),
        id_entry := [], focus := IdEntry\<rparr>"
    by (rule submit_valid [OF strip_samples(1) _ _ _ df numeric_not_signed_in])
       (simp_all add: started_simps sample_day)
  then have "submit ''123'' ?st =
     (started numeric_roster {''123''})\<lparr>tick := 8,
        fs := [roster_path \<mapsto> numeric_roster, log_path ''2024-03-05'' \<mapsto> numeric_log2],
        status_label := (''Thank you. You have been signed in.'', ''green''),
        id_entry := [], focus := IdEntry\<rparr>"
    by (simp add: concat_row_schema length_log_columns to_csv_def started_simps sample_time
        render_samples numeric_log2_def)
       (simp add: render_def)
  then show ?thesis by (simp only: first)
qed

lemma load_numeric_roster:
  "load_valid_users_from_csv v [roster_path \<mapsto> numeric_roster] roster_path = Inr ({''123''}, [])"
  by (simp add: load_valid_users_from_csv_def roster_ids_def read_csv_def numeric_roster_def
      width_def read_record_def column_texts_def field_def read_cell_def column_dtype_plain
      column_dtype_samples plain_text_samples int64_lit_samples is_na_samples strip_samples
      cell_at_def astype_str_def List.map_filter_simps str_int_def str_nat.simps digit_char_def
      upt_rec)

text \<open>
  Claim C1 (the code departs from it). The roster file holds the identifier \<open>123\<close>,
  the application starts with the roster \<^verbatim>\<open>{'123'}\<close>, and \<^verbatim>\<open>123\<close> is submitted
  twice on the same day. The first submission writes a \<^verbatim>\<open>Signed In\<close> record; the
  second one, which reads the log back from the file, writes a second
  \<^verbatim>\<open>Signed In\<close> record and reports a sign-in again.
\<close>

theorem numeric_identifier_signed_in_twice:
  "init v [roster_path \<mapsto> numeric_roster] sample_clock = Inr (started numeric_roster {''123''}, [])
   \<and> fs (run [''123''] (started numeric_roster {''123''})) (log_path ''2024-03-05'') =
       Some \<lparr>header = [''Student ID'', ''Status'', ''Date'', ''Time''],
             records = [[''123'', ''Signed In'', ''2024-03-05'', ''09:00:02'']]\<rparr>
   \<and> status_label (run [''123''] (started numeric_roster {''123''})) =
       (''Thank you. You have been signed in.'', ''green'')
   \<and> fs (run [''123'', ''123''] (started numeric_roster {''123''})) (log_path ''2024-03-05'') =
       Some \<lparr>header = [''Student ID'', ''Status'', ''Date'', ''Time''],
             records = [[''123'', ''Signed In'', ''2024-03-05'', ''09:00:02''],
                        [''123'', ''Signed In'', ''2024-03-05'', ''09:00:06'']]\<rparr>
   \<and> status_label (run [''123'', ''123''] (started numeric_roster {''123''})) =
       (''Thank you. You have been signed in.'', ''green'')"
proof -
  have i: "init v [roster_path \<mapsto> numeric_roster] sample_clock = Inr (started numeric_roster {''123''}, [])"
    by (simp add: init_def load_numeric_roster started_def)
  have one: "run [''123''] (started numeric_roster {''123''}) =
     (started numeric_roster {''123''})\<lparr>tick := 4,
        fs := [roster_path \<mapsto> numeric_roster, log_path ''2024-03-05'' \<mapsto> numeric_log1],
        status_label := (''Thank you. You have been signed in.'', ''green''),
        id_entry := [], focus := IdEntry\<rparr>"
    using first_submission [of "''123''" "{''123''}" numeric_roster]
    by (simp add: strip_samples numeric_log1_def)
  have two: "run [''123'', ''123''] (started numeric_roster {''123''}) =
     (started numeric_roster {''123''})\<lparr>tick := 8,
        fs := [roster_path \<mapsto> numeric_roster, log_path ''2024-03-05'' \<mapsto> numeric_log2],
        status_label := (''Thank you. You have been signed in.'', ''green''),
        id_entry := [], focus := IdEntry\<rparr>"
    by (simp add: second_numeric)
  show ?thesis
    unfolding one two using i by (simp add: numeric_log1_def numeric_log2_def log_columns_def)
qed

text \<open>
  For comparison, an identifier that is no integer literal: the log read back has
  \<^verbatim>\<open>str\<close> cells, the second submission writes \<^verbatim>\<open>Signed Out\<close>, and so does the
  third, since the \<^verbatim>\<open>Signed In\<close> row is still there.
\<close>

lemma read_alnum_log1:
  "read_csv (Some alnum_log1) p =
     Inr \<lparr>columns = log_columns,
          rows = [[StrC ''A12'', StrC ''Signed In'', StrC ''2024-03-05'', StrC ''09:00:02'']]\<rparr>"
  by (simp add: read_csv_def alnum_log1_def log_columns_def width_def read_record_def column_texts_def
      field_def read_cell_def column_dtype_plain column_dtype_samples plain_text_samples
      int64_lit_samples is_na_samples upt_rec)

lemma read_alnum_log2:
  "read_csv (Some alnum_log2) p =
     Inr \<lparr>columns = log_columns,
          rows = [[StrC ''A12'', StrC ''Signed In'', StrC ''2024-03-05'', StrC ''09:00:02''],
                  [StrC ''A12'', StrC ''Signed Out'', StrC ''2024-03-05'', StrC ''09:00:06'']]\<rparr>"
  by (simp add: read_csv_def alnum_log2_def log_columns_def width_def read_record_def column_texts_def
      field_def read_cell_def column_dtype_plain column_dtype_samples plain_text_samples
      int64_lit_samples is_na_samples upt_rec)

lemma alnum_signed_in:
  "student_already_signed_in
     \<lparr>columns = log_columns,
      rows = [StrC ''A12'', StrC ''Signed In'', StrC ''2024-03-05'', StrC ''09:00:02''] # later\<rparr> ''A12''
   = Inr True"
  by (simp add: student_already_signed_in_def log_columns_def eq_str_def cell_at_def)

lemma alphanumeric_identifier_toggles:
  "fs (run [''A12''] (started alnum_roster {''A12''})) (log_path ''2024-03-05'') = Some alnum_log1
   \<and> fs (run [''A12'', ''A12''] (started alnum_roster {''A12''})) (log_path ''2024-03-05'')
       = Some alnum_log2
   \<and> status_label (run [''A12'', ''A12''] (started alnum_roster {''A12''}))
       = (''Thank you. You have been successfully logged out.'', ''green'')
   \<and> fs (run [''A12'', ''A12'', ''A12''] (started alnum_roster {''A12''})) (log_path ''2024-03-05'')
       = Some alnum_log3"
proof -
  let ?s0 = "started alnum_roster {''A12''}"
  let ?s1 = "?s0\<lparr>tick := 4,
        fs := [roster_path \<mapsto> alnum_roster, log_path ''2024-03-05'' \<mapsto> alnum_log1],
        status_label := (''Thank you. You have been signed in.'', ''green''),
        id_entry := [], focus := IdEntry\<rparr>"
  let ?s2 = "?s0\<lparr>tick := 8,
        fs := [roster_path \<mapsto> alnum_roster, log_path ''2024-03-05'' \<mapsto> alnum_log2],
        status_label := (''Thank you. You have been successfully logged out.'', ''green''),
        id_entry := [], focus := IdEntry\<rparr>"
  let ?s3 = "?s0\<lparr>tick := 12,
        fs := [roster_path \<mapsto> alnum_roster, log_path ''2024-03-05'' \<mapsto> alnum_log3],
        status_label := (''Thank you. You have been successfully logged out.'', ''green''),
        id_entry := [], focus := IdEntry\<rparr>"
  let ?df1 = "\<lparr>columns = log_columns,
      rows = [[StrC ''A12'', StrC ''Signed In'', StrC ''2024-03-05'', StrC ''09:00:02'']]\<rparr>"
  let ?df2 = "\<lparr>columns = log_columns,
      rows = [[StrC ''A12'', StrC ''Signed In'', StrC ''2024-03-05'', StrC ''09:00:02''],
              [StrC ''A12'', StrC ''Signed Out'', StrC ''2024-03-05'', StrC ''09:00:06'']]\<rparr>"
  have one: "submit ''A12'' ?s0 = ?s1"
    using first_submission [of "''A12''" "{''A12''}" alnum_roster]
    by (simp add: strip_samples alnum_log1_def)
  have "todays_file ?s1 ''2024-03-05'' = alnum_log1" by (simp add: todays_file_def)
  then have df1: "read_csv (Some (todays_file ?s1 ''2024-03-05'')) (log_path ''2024-03-05'') = Inr ?df1"
    by (simp add: read_alnum_log1)
  have "submit ''A12'' ?s1 = ?s1\<lparr>tick := tick ?s1 + 4,
        fs := (fs ?s1)(log_path ''2024-03-05'' \<mapsto> to_csv (concat_row ?df1
                  [(''Student ID'', StrC ''A12''),
                   (''Status'', StrC (if True then ''Signed Out'' else ''Signed In'')),
                   (''Date'', StrC ''2024-03-05''),
                   (''Time'', StrC (strftime_time (clock ?s1 (tick ?s1 + 2))))])),
        status_label := (if True then ''Thank you. You have been successfully logged out.''
                         else ''Thank you. You have been signed in.'', ''green''),
        id_entry := [], focus := IdEntry\<rparr>"
    by (rule submit_valid [OF strip_samples(2) _ _ _ df1 alnum_signed_in])
       (simp_all add: started_simps sample_day)
  then have two: "submit ''A12'' ?s1 = ?s2"
    by (simp add: concat_row_schema length_log_columns to_csv_def started_simps sample_time
        render_def alnum_log2_def)
  have "todays_file ?s2 ''2024-03-05'' = alnum_log2" by (simp add: todays_file_def)
  then have df2: "read_csv (Some (todays_file ?s2 ''2024-03-05'')) (log_path ''2024-03-05'') = Inr ?df2"
    by (simp add: read_alnum_log2)
  have "submit ''A12'' ?s2 = ?s2\<lparr>tick := tick ?s2 + 4,
        fs := (fs ?s2)(log_path ''2024-03-05'' \<mapsto> to_csv (concat_row ?df2
                  [(''Student ID'', StrC ''A12''),
                   (''Status'', StrC (if True then ''Signed Out'' else ''Signed In'')),
                   (''Date'', StrC ''2024-03-05''),
                   (''Time'', StrC (strftime_time (clock ?s2 (tick ?s2 + 2))))])),
        status_label := (if True then ''Thank you. You have been successfully logged out.''
                         else ''Thank you. You have been signed in.'', ''green''),
        id_entry := [], focus := IdEntry\<rparr>"
    by (rule submit_valid [OF strip_samples(2) _ _ _ df2 alnum_signed_in])
       (simp_all add: started_simps sample_day)
  then have three: "submit ''A12'' ?s2 = ?s3"
    by (simp add: concat_row_schema length_log_columns to_csv_def started_simps sample_time
        render_def alnum_log3_def)
  have r1: "run [''A12''] ?s0 = ?s1" by (simp add: one)
  have r2: "run [''A12'', ''A12''] ?s0 = ?s2" by (simp add: one two)
  have r3: "run [''A12'', ''A12'', ''A12''] ?s0 = ?s3" by (simp add: one two three)
  show ?thesis unfolding r1 r2 r3 by simp
qed

subsection \<open>The entry after a submission\<close>

text \<open>
  Claim C6 (the code departs from it). The focus is on the button. A submission of
  three blanks returns at the first check: the blanks stay in the entry and the focus
  stays on the button. A submission of an unknown identifier clears the entry and
  leaves the focus on the button. Only the accepted submission reaches the two last
  lines of the handler, which clear the entry and give it the focus.
\<close>

theorem rejected_submission_keeps_entry_or_focus:
  "sign_in ((started numeric_roster {''123''})\<lparr>id_entry := ''   '', focus := SigninButton\<rparr>) =
     (None, (started numeric_roster {''123''})
              \<lparr>id_entry := ''   '', focus := SigninButton,
               status_label := (''Please enter a Student ID'', ''red'')\<rparr>)
   \<and> sign_in ((started numeric_roster {''123''})\<lparr>id_entry := '' 999 '', focus := SigninButton\<rparr>) =
     (None, (started numeric_roster {''123''})
              \<lparr>id_entry := [], focus := SigninButton,
               status_label := (''Please enter a valid STUDENT ID'', ''red'')\<rparr>)
   \<and> id_entry (submit ''123'' ((started numeric_roster {''123''})\<lparr>focus := SigninButton\<rparr>)) = []
   \<and> focus (submit ''123'' ((started numeric_roster {''123''})\<lparr>focus := SigninButton\<rparr>)) = IdEntry"
proof -
  let ?st = "(started numeric_roster {''123''})\<lparr>focus := SigninButton\<rparr>"
  have "todays_file ?st ''2024-03-05'' = \<lparr>header = log_columns, records = []\<rparr>"
    by (simp add: todays_file_def started_simps log_path_not_roster)
  then have df: "read_csv (Some (todays_file ?st ''2024-03-05'')) (log_path ''2024-03-05'')
      = Inr \<lparr>columns = log_columns, rows = []\<rparr>"
    by (simp add: read_empty_log)
  have "submit ''123'' ?st = ?st\<lparr>tick := tick ?st + 4,
        fs := (fs ?st)(log_path ''2024-03-05'' \<mapsto> to_csv (concat_row \<lparr>columns = log_columns, rows = []\<rparr>
                  [(''Student ID'', StrC ''123''),
                   (''Status'', StrC (if False then ''Signed Out'' else ''Signed In'')),
                   (''Date'', StrC ''2024-03-05''),
                   (''Time'', StrC (strftime_time (clock ?st (tick ?st + 2))))])),
        status_label := (if False then ''Thank you. You have been successfully logged out.''
                         else ''Thank you. You have been signed in.'', ''green''),
        id_entry := [], focus := IdEntry\<rparr>"
    by (rule submit_valid [OF strip_samples(1) _ _ _ df no_row_not_signed_in])
       (simp_all add: started_simps sample_day)
  then have ok: "id_entry (submit ''123'' ?st) = [] \<and> focus (submit ''123'' ?st) = IdEntry"
    by simp
  show ?thesis
    using ok by (simp add: sign_in_def strip_samples started_simps)
qed

subsection \<open>Opening the log of the day\<close>


















subsection \<open>The check for an earlier sign-in\<close>

text \<open>
  On a frame that has the columns \<^verbatim>\<open>Student ID\<close> and \<^verbatim>\<open>Status\<close>, the check
  answers true exactly when some row has the \<^verbatim>\<open>str\<close> identifier in the first and
  the \<^verbatim>\<open>str\<close> \<^verbatim>\<open>Signed In\<close> in the second; rows that follow do not change a
  true answer.
\<close>

lemma check_looks_for_str_cells:
  assumes "col_index (columns df) ''Student ID'' = Some i"
    and "col_index (columns df) ''Status'' = Some j"
  shows "student_already_signed_in df sid =
           Inr (\<exists>r\<in>set (rows df). cell_at r i = StrC sid \<and> cell_at r j = StrC ''Signed In'')
       \<and> ((\<exists>r\<in>set (rows df). cell_at r i = StrC sid \<and> cell_at r j = StrC ''Signed In'') \<longrightarrow>
            student_already_signed_in (df\<lparr>rows := rows df @ later\<rparr>) sid = Inr True)"
  using assms by (auto simp: student_already_signed_in_def eq_str_iff filter_empty_conv)

text \<open>
  Claim C2 (the code departs from it, by the defect of claim C1). The identifier \<open>123\<close>
  has signed in, and the log holds the record \<^verbatim>\<open>123,Signed In\<close>. The frame that
  \<^verbatim>\<open>daily_log_generation\<close> returns next has one row, which prints as that record:
  a row for the identifier \<open>123\<close> with the status \<^verbatim>\<open>Signed In\<close>. Its identifier
  is an \<^verbatim>\<open>int\<close>, and \<^verbatim>\<open>student_already_signed_in\<close> answers false for
  \<^verbatim>\<open>'123'\<close>.
\<close>

theorem signed_in_row_of_numeric_identifier_not_found:
  "fs (run [''123''] (started numeric_roster {''123''})) (log_path ''2024-03-05'')
     = Some \<lparr>header = [''Student ID'', ''Status'', ''Date'', ''Time''],
             records = [[''123'', ''Signed In'', ''2024-03-05'', ''09:00:02'']]\<rparr>
   \<and> daily_log_generation (run [''123''] (started numeric_roster {''123''})) =
       (Inr \<lparr>columns = [''Student ID'', ''Status'', ''Date'', ''Time''],
             rows = [[IntC 123, StrC ''Signed In'', StrC ''2024-03-05'', StrC ''09:00:02'']]\<rparr>,
        (run [''123''] (started numeric_roster {''123''}))\<lparr>tick := 5\<rparr>)
   \<and> map (map render) [[IntC 123, StrC ''Signed In'', StrC ''2024-03-05'', StrC ''09:00:02'']]
       = [[''123'', ''Signed In'', ''2024-03-05'', ''09:00:02'']]
   \<and> student_already_signed_in
        \<lparr>columns = [''Student ID'', ''Status'', ''Date'', ''Time''],
         rows = [[IntC 123, StrC ''Signed In'', StrC ''2024-03-05'', StrC ''09:00:02'']]\<rparr> ''123''
       = Inr False"
proof -
  let ?s1 = "(started numeric_roster {''123''})\<lparr>tick := 4,
        fs := [roster_path \<mapsto> numeric_roster, log_path ''2024-03-05'' \<mapsto> numeric_log1],
        status_label := (''Thank you. You have been signed in.'', ''green''),
        id_entry := [], focus := IdEntry\<rparr>"
  have r: "run [''123''] (started numeric_roster {''123''}) = ?s1"
    using first_submission [of "''123''" "{''123''}" numeric_roster]
    by (simp add: strip_samples numeric_log1_def)
  have l: "fs ?s1 (log_path ''2024-03-05'') = Some numeric_log1" by simp
  have d: "daily_log_generation ?s1 =
       (Inr \<lparr>columns = log_columns,
             rows = [[IntC 123, StrC ''Signed In'', StrC ''2024-03-05'', StrC ''09:00:02'']]\<rparr>,
        ?s1\<lparr>tick := 5\<rparr>)"
    using l
    by (simp add: daily_log_generation_def now_def started_simps sample_day log_path_def
        read_numeric_log1)
  have p: "map (map render) [[IntC 123, StrC ''Signed In'', StrC ''2024-03-05'', StrC ''09:00:02'']]
       = [[''123'', ''Signed In'', ''2024-03-05'', ''09:00:02'']]"
    by (simp add: render_samples) (simp add: render_def)
  show ?thesis
    unfolding r using l d p numeric_not_signed_in
    by (simp add: numeric_log1_def log_columns_def)
qed

subsection \<open>Rejected submissions\<close>

text \<open>
  Claim C3. When the text of the entry, stripped, is not empty and is no member of the
  roster, \<^verbatim>\<open>sign_in\<close> raises nothing, sets the status label to the red
  \<^verbatim>\<open>Please enter a valid STUDENT ID\<close>, clears the entry, and leaves every file as it
  was.
\<close>

theorem sign_in_unknown_member:
  assumes "strip (id_entry st) \<noteq> []" and "strip (id_entry st) \<notin> valid_users st"
  shows "sign_in st =
           (None, st\<lparr>status_label := (''Please enter a valid STUDENT ID'', ''red''),
                     id_entry := []\<rparr>)
       \<and> fs (snd (sign_in st)) = fs st"
  using assms by (simp add: sign_in_def)

theorem sign_in_unknown_member_witness:
  "strip '' 999 '' \<noteq> [] \<and> strip '' 999 '' \<notin> {''123''}
   \<and> sign_in ((started numeric_roster {''123''})\<lparr>id_entry := '' 999 ''\<rparr>) =
       (None, (started numeric_roster {''123''})
                \<lparr>status_label := (''Please enter a valid STUDENT ID'', ''red''), id_entry := []\<rparr>)
   \<and> fs (snd (sign_in ((started numeric_roster {''123''})\<lparr>id_entry := '' 999 ''\<rparr>)))
       = [roster_path \<mapsto> numeric_roster]"
proof -
  let ?st = "(started numeric_roster {''123''})\<lparr>id_entry := '' 999 ''\<rparr>"
  have h1: "strip (id_entry ?st) \<noteq> []" by (simp add: strip_samples)
  have h2: "strip (id_entry ?st) \<notin> valid_users ?st" by (simp add: strip_samples started_simps)
  show ?thesis
    using sign_in_unknown_member [OF h1 h2] by (simp add: strip_samples started_simps)
qed

text \<open>
  Claim C4. When the text of the entry is empty or consists of whitespace only,
  \<^verbatim>\<open>sign_in\<close> raises nothing, sets the status label to the red
  \<^verbatim>\<open>Please enter a Student ID\<close>, and leaves every file as it was.
\<close>

theorem sign_in_empty_input:
  assumes "\<forall>c\<in>set (id_entry st). py_isspace c"
  shows "sign_in st = (None, st\<lparr>status_label := (''Please enter a Student ID'', ''red'')\<rparr>)
       \<and> fs (snd (sign_in st)) = fs st"
  using assms by (simp add: sign_in_def strip_empty_iff)

theorem sign_in_empty_input_witness:
  "list_all py_isspace ''   ''
   \<and> sign_in ((started numeric_roster {''123''})\<lparr>id_entry := ''   ''\<rparr>) =
       (None, (started numeric_roster {''123''})
                \<lparr>id_entry := ''   '', status_label := (''Please enter a Student ID'', ''red'')\<rparr>)
   \<and> fs (snd (sign_in ((started numeric_roster {''123''})\<lparr>id_entry := ''   ''\<rparr>)))
       = [roster_path \<mapsto> numeric_roster]"
proof -
  let ?st = "(started numeric_roster {''123''})\<lparr>id_entry := ''   ''\<rparr>"
  have h: "\<forall>c\<in>set (id_entry ?st). py_isspace c" by (simp add: py_isspace_def)
  show ?thesis
    using sign_in_empty_input [OF h] h by (simp add: started_simps list_all_iff)
qed

subsection \<open>Appending to the log\<close>

text \<open>
  Claim C8. For a frame with the columns of the log, \<^verbatim>\<open>log_student_sign_in\<close>
  writes to the given path the file whose records are the rows of the frame, each cell
  printed, in their order, followed by one record: the identifier, the status, the date
  and the time read from the clock (the time first, the date second). No row of the
  frame is changed or dropped.
\<close>

theorem log_student_sign_in_appends:
  assumes "columns df = log_columns" and "\<forall>r\<in>set (rows df). length r = length log_columns"
  shows "fs (log_student_sign_in df file_path student_id status st) file_path =
     Some \<lparr>header = log_columns,
           records = map (map render) (rows df) @
                     [[student_id, status, strftime_date (clock st (Suc (tick st))),
                       strftime_time (clock st (tick st))]]\<rparr>"
  using concat_row_schema [OF assms]
  by (simp add: log_student_sign_in_def now_def to_csv_def render_def)

theorem log_student_sign_in_appends_witness:
  "columns sample_log = log_columns
   \<and> list_all (\<lambda>r. length r = length log_columns) (rows sample_log)
   \<and> fs (log_student_sign_in sample_log (log_path ''2024-03-05'') ''A12'' ''Signed Out''
           (started alnum_roster {''A12''})) (log_path ''2024-03-05'') =
       Some \<lparr>header = log_columns,
             records = [[''A12'', ''Signed In'', ''2024-03-05'', ''09:00:02''],
                        [''A12'', ''Signed Out'', ''2024-03-05'', ''09:00:06''],
                        [''123'', ''Signed In'', ''2024-03-05'', ''09:00:10''],
                        [''A12'', ''Signed Out'', ''2024-03-05'', ''09:00:00'']]\<rparr>"
proof -
  have c: "columns sample_log = log_columns" by (simp add: sample_log_def)
  have l: "\<forall>r\<in>set (rows sample_log). length r = length log_columns"
    by (simp add: sample_log_def log_columns_def)
  have r: "map (map render) (rows sample_log) =
      [[''A12'', ''Signed In'', ''2024-03-05'', ''09:00:02''],
       [''A12'', ''Signed Out'', ''2024-03-05'', ''09:00:06''],
       [''123'', ''Signed In'', ''2024-03-05'', ''09:00:10'']]"
    by (simp add: sample_log_def render_samples) (simp add: render_def)
  show ?thesis
    using log_student_sign_in_appends [OF c l, of "log_path ''2024-03-05''" "''A12''"
        "''Signed Out''" "started alnum_roster {''A12''}"] c l r
    by (simp add: started_simps sample_day sample_time list_all_iff)
qed

text \<open>
  Claim C9. While every reading of the clock is on the day whose date prints as \<open>D\<close>,
  a session of submissions, whatever the texts submitted, changes no file but the log of
  \<open>D\<close>: every other path holds after the session what it held before.
\<close>

theorem only_todays_log_written:
  assumes "\<forall>n. strftime_date (clock st n) = D" and "p \<noteq> log_path D"
  shows "fs (run xs st) p = fs st p"
  using assms by (rule run_frame)

theorem only_todays_log_written_witness:
  "log_path ''2024-03-04'' \<noteq> log_path ''2024-03-05''
   \<and> fs (run [''123'', ''   '', '' 999 '', ''123''] (started numeric_roster {''123''}))
        (log_path ''2024-03-04'') = None"
proof -
  have d: "\<forall>n. strftime_date (clock (started numeric_roster {''123''}) n) = ''2024-03-05''"
    by (simp add: started_simps sample_day)
  have p: "log_path ''2024-03-04'' \<noteq> log_path ''2024-03-05''"
    by (simp add: log_path_def path_join_def)
  show ?thesis
    using only_todays_log_written [OF d p, of "[''123'', ''   '', '' 999 '', ''123'']"] p
    by (simp add: started_simps log_path_not_roster del: run.simps)
qed


subsection \<open>The roster\<close>

text \<open>What \<^verbatim>\<open>read_csv\<close> does with records that are longer or shorter than the header.\<close>

lemma read_csv_record_lengths:
  "read_csv (Some \<lparr>header = [''a'', ''b''], records = [[''x'', ''y''], [''z'', ''u'', ''w'']]\<rparr>) p
     = Inl ParserError"
  "read_csv (Some \<lparr>header = [''a'', ''b''], records = [[''k'', ''x'', ''y''], [''l'', ''z'']]\<rparr>) p
     = Inr \<lparr>columns = [''a'', ''b''], rows = [[StrC ''x'', StrC ''y''], [StrC ''z'', NaN]]\<rparr>"
  by (simp_all add: read_csv_def width_def read_record_def column_texts_def field_def
      read_cell_def column_dtype_def plain_text_def is_na_def na_values_def float_shape_def
      special_word_def to_lower_def drop_sign_def c_isspace_def is_digit_def upt_rec)

text \<open>
  Claim C5, as it is stated, fails. The roster file exists and has no line, so it has no
  column \<^verbatim>\<open>Student ID\<close>: \<^verbatim>\<open>read_csv\<close> raises \<^verbatim>\<open>EmptyDataError\<close>, which
  neither \<^verbatim>\<open>except\<close> clause catches and which leaves \<^verbatim>\<open>__init__\<close>. A roster
  without that column and with a record too long raises \<^verbatim>\<open>ParserError\<close> in the
  same way.
\<close>

theorem roster_without_line_raises:
  "''Student ID'' \<notin> set (map strip (header empty_file))
   \<and> load_valid_users_from_csv Pandas2 [roster_path \<mapsto> empty_file] roster_path = Inl EmptyDataError
   \<and> load_valid_users_from_csv Pandas3 [roster_path \<mapsto> empty_file] roster_path = Inl EmptyDataError
   \<and> init Pandas2 [roster_path \<mapsto> empty_file] sample_clock = Inl EmptyDataError
   \<and> init Pandas3 [roster_path \<mapsto> empty_file] sample_clock = Inl EmptyDataError
   \<and> ''Student ID'' \<notin> set (map strip (header ragged_roster))
   \<and> load_valid_users_from_csv Pandas2 [roster_path \<mapsto> ragged_roster] roster_path = Inl ParserError
   \<and> load_valid_users_from_csv Pandas3 [roster_path \<mapsto> ragged_roster] roster_path = Inl ParserError"
  by (simp add: init_def load_valid_users_from_csv_def roster_ids_def read_csv_def empty_file_def
      ragged_roster_def width_def strip_samples)

text \<open>
  Claim C5, as amended. When the roster file is missing, or when \<^verbatim>\<open>read_csv\<close> reads
  it (it has a header line, and no record has more fields than the header and the first
  record allow) and none of its labels, stripped, is \<^verbatim>\<open>Student ID\<close>,
  \<^verbatim>\<open>load_valid_users_from_csv\<close> raises nothing: it shows one error dialog and
  returns the empty set. With an empty roster every submission is rejected with a red
  status, and no session writes a file.
\<close>

theorem load_valid_users_fails_softly:
  "(files path = None \<longrightarrow>
      load_valid_users_from_csv v files path =
        Inr ({}, [ShowError ''Error'' (path @ '' file not found!'')]))
   \<and> (\<forall>f. files path = Some f \<and> header f \<noteq> []
          \<and> list_all (\<lambda>r. length r \<le> width f) (records f)
          \<and> ''Student ID'' \<notin> set (map strip (header f)) \<longrightarrow>
      load_valid_users_from_csv v files path =
        Inr ({}, [ShowErrorStr ''Error'' (ColumnNotFound path (map strip (header f)))]))
   \<and> (\<forall>st. valid_users st = {} \<longrightarrow>
      fst (sign_in st) = None \<and> snd (status_label (snd (sign_in st))) = ''red''
      \<and> (\<forall>xs. fs (run xs st) = fs st))"
proof (intro conjI allI impI)
  assume "files path = None"
  then show "load_valid_users_from_csv v files path =
      Inr ({}, [ShowError ''Error'' (path @ '' file not found!'')])"
    by (simp add: load_valid_users_from_csv_def roster_ids_def read_csv_def)
next
  fix f
  assume a: "files path = Some f \<and> header f \<noteq> []
          \<and> list_all (\<lambda>r. length r \<le> width f) (records f)
          \<and> ''Student ID'' \<notin> set (map strip (header f))"
  then have none: "col_index (map strip (header f)) ''Student ID'' = None"
    by (simp add: col_index_None)
  have "\<not> list_ex (\<lambda>r. width f < length r) (records f)"
    using a by (auto simp: list_ex_iff list_all_iff)
  then have "read_csv (Some f) path =
      Inr \<lparr>columns = header f, rows = map (read_record f) (records f)\<rparr>"
    using a by (simp add: read_csv_def)
  then show "load_valid_users_from_csv v files path =
      Inr ({}, [ShowErrorStr ''Error'' (ColumnNotFound path (map strip (header f)))])"
    using a none by (simp add: load_valid_users_from_csv_def roster_ids_def)
next
  fix st :: app
  assume "valid_users st = {}"
  then show "fst (sign_in st) = None" by (simp add: sign_in_no_users)
next
  fix st :: app
  assume "valid_users st = {}"
  then show "snd (status_label (snd (sign_in st))) = ''red''" by (simp add: sign_in_no_users)
next
  fix st :: app and xs
  assume "valid_users st = {}"
  then show "fs (run xs st) = fs st" by (rule run_no_users)
qed

theorem load_valid_users_fails_softly_witness:
  "init Pandas2 Map.empty sample_clock =
     Inr (\<lparr>fs = Map.empty, clock = sample_clock, tick = 0, valid_users = {}, id_entry = [],
           status_label = ([], ''black''), focus = Window\<rparr>,
          [ShowError ''Error'' ''Robotics Club Member Roster CSV.csv file not found!''])
   \<and> load_valid_users_from_csv Pandas3 [roster_path \<mapsto> nameless_roster] roster_path =
       Inr ({}, [ShowErrorStr ''Error'' (ColumnNotFound roster_path [''Name'', ''Email''])])
   \<and> fs (run [''123'', ''A12''] (started nameless_roster {})) = [roster_path \<mapsto> nameless_roster]
   \<and> status_label (snd (sign_in ((started nameless_roster {})\<lparr>id_entry := ''123''\<rparr>)))
       = (''Please enter a valid STUDENT ID'', ''red'')"
proof -
  let ?files = "[roster_path \<mapsto> nameless_roster]"
  have m: "load_valid_users_from_csv Pandas2 Map.empty roster_path =
      Inr ({}, [ShowError ''Error'' (roster_path @ '' file not found!'')])"
    using load_valid_users_fails_softly [of Map.empty roster_path Pandas2] by simp
  have s: "map strip (header nameless_roster) = [''Name'', ''Email'']"
    by (simp add: nameless_roster_def strip_samples)
  have h: "?files roster_path = Some nameless_roster \<and> header nameless_roster \<noteq> []
      \<and> list_all (\<lambda>r. length r \<le> width nameless_roster) (records nameless_roster)
      \<and> ''Student ID'' \<notin> set (map strip (header nameless_roster))"
    by (simp add: s) (simp add: nameless_roster_def width_def)
  have c: "load_valid_users_from_csv Pandas3 ?files roster_path =
      Inr ({}, [ShowErrorStr ''Error'' (ColumnNotFound roster_path [''Name'', ''Email''])])"
    using load_valid_users_fails_softly [of ?files roster_path Pandas3, THEN conjunct2,
        THEN conjunct1, rule_format, OF h]
    by (simp only: s)
  have r: "fs (run [''123'', ''A12''] (started nameless_roster {})) = ?files"
    using load_valid_users_fails_softly [of ?files roster_path Pandas3]
    by (simp add: started_simps del: run.simps)
  have l: "status_label (snd (sign_in ((started nameless_roster {})\<lparr>id_entry := ''123''\<rparr>)))
       = (''Please enter a valid STUDENT ID'', ''red'')"
    by (simp add: sign_in_def strip_samples started_simps)
  show ?thesis using m c r l by (simp add: init_def roster_path_def)
qed

text \<open>
  Claim C10 (the code departs from it). The roster file holds the identifier \<open>123\<close>
  and a row without an identifier. \<^verbatim>\<open>read_csv\<close> reads the column as
  \<^verbatim>\<open>float64\<close>, so \<^verbatim>\<open>astype(str)\<close> turns the entry \<open>123\<close> into
  \<^verbatim>\<open>'123.0'\<close>, in either version of pandas, and the submitted text \<^verbatim>\<open>123\<close>
  is rejected as unknown.
\<close>

theorem roster_entry_beside_blank_is_rejected:
  "init Pandas2 [roster_path \<mapsto> blank_id_roster] sample_clock
     = Inr (started blank_id_roster {''123.0'', ''nan''}, [])
   \<and> init Pandas3 [roster_path \<mapsto> blank_id_roster] sample_clock
     = Inr (started blank_id_roster {''123.0''}, [])
   \<and> sign_in ((started blank_id_roster {''123.0'', ''nan''})\<lparr>id_entry := ''123''\<rparr>) =
       (None, (started blank_id_roster {''123.0'', ''nan''})
                \<lparr>status_label := (''Please enter a valid STUDENT ID'', ''red''), id_entry := []\<rparr>)
   \<and> sign_in ((started blank_id_roster {''123.0''})\<lparr>id_entry := ''123''\<rparr>) =
       (None, (started blank_id_roster {''123.0''})
                \<lparr>status_label := (''Please enter a valid STUDENT ID'', ''red''), id_entry := []\<rparr>)"
proof -
  have rd: "read_csv (Some blank_id_roster) roster_path =
      Inr \<lparr>columns = [''Name'', ''Student ID''],
           rows = [[StrC ''Ann'', OtherC ''123.0''], [StrC ''Bob'', NaN]]\<rparr>"
    by (simp add: read_csv_def blank_id_roster_def width_def read_record_def column_texts_def
        field_def read_cell_def column_dtype_plain column_dtype_samples plain_text_samples
        is_na_samples small_int_123 upt_rec)
  have l2: "load_valid_users_from_csv Pandas2 [roster_path \<mapsto> blank_id_roster] roster_path
      = Inr ({''123.0'', ''nan''}, [])"
    and l3: "load_valid_users_from_csv Pandas3 [roster_path \<mapsto> blank_id_roster] roster_path
      = Inr ({''123.0''}, [])"
    by (simp_all add: load_valid_users_from_csv_def roster_ids_def rd strip_samples cell_at_def
        astype_str_def List.map_filter_simps)
  show ?thesis
    by (simp add: init_def l2 l3 started_def sign_in_def strip_samples)
qed

end
